theory Spec2Isabelle
  imports Main "HOL-Library.Word" "HOL-Library.AList"
begin

unbundle bit_operations_syntax

section \<open>EncryptoPack: chunk size selection\<close>

text \<open>
  \<^verbatim>\<open>get_optimal_block_size\<close> (EncryptoPack.py, lines 19-41). The argument is what
  \<^verbatim>\<open>psutil.virtual_memory().available\<close> gave: \<open>None\<close> when the query raised (the bare
  \<^verbatim>\<open>except\<close> then returns 524288), otherwise the number of bytes. The result is
  \<open>None\<close> where the Python function would fall off the end of its \<^verbatim>\<open>if\<close> chain and
  return \<^verbatim>\<open>None\<close>. Python's \<^verbatim>\<open>//\<close> is floor division, as \<open>div\<close> on \<open>int\<close> is.
\<close>

definition get_optimal_block_size :: "int option \<Rightarrow> int option" where
  "get_optimal_block_size available =
     (case available of
        None \<Rightarrow> Some 524288
      | Some available_ram \<Rightarrow>
          (let gb_ram = available_ram div (1024 ^ 3) in
           if gb_ram \<le> 1 then Some 65536
           else if gb_ram \<le> 2 then Some 131072
           else if gb_ram \<le> 3 then Some 262144
           else if gb_ram \<le> 4 then Some 524288
           else if gb_ram \<le> 6 then Some 524288
           else if gb_ram \<le> 8 then Some 1048576
           else if gb_ram \<le> 12 then Some 1048576
           else if gb_ram \<le> 16 then Some 1572864
           else if gb_ram \<le> 24 then Some 1572864
           else if gb_ram \<le> 32 then Some 3145728
           else if gb_ram \<ge> 32 then Some 3145728
           else None))"

text \<open>The tier table of the specification, as a function of whole GiB.\<close>

definition documented_tier :: "int \<Rightarrow> int" where
  "documented_tier g =
     (if g \<le> 1 then 65536
      else if g \<le> 2 then 131072
      else if g \<le> 3 then 262144
      else if g \<le> 6 then 524288
      else if g \<le> 12 then 1048576
      else if g \<le> 24 then 1572864
      else 3145728)"

definition chunk_sizes :: "int set" where
  "chunk_sizes = {65536, 131072, 262144, 524288, 1048576, 1572864, 3145728}"

section \<open>Bytes, text and hexadecimal\<close>

type_synonym byte = "8 word"
type_synonym bytes = "byte list"

text \<open>
  A Python \<^verbatim>\<open>str\<close> is a list of code points; the model keeps the code points below 256
  (\<open>char\<close>). \<^verbatim>\<open>str.encode()\<close> is UTF-8: one byte below 128, two bytes from 128 to 255.
\<close>

definition utf8_char :: "char \<Rightarrow> bytes" where
  "utf8_char c =
     (let n = (of_char c :: nat) in
      if n < 128 then [of_nat n] else [of_nat (192 + n div 64), of_nat (128 + n mod 64)])"

definition encode :: "string \<Rightarrow> bytes" where
  "encode s = concat (map utf8_char s)"

text \<open>\<^verbatim>\<open>str.isspace\<close> on the code points below 256, and \<^verbatim>\<open>str.strip()\<close>.\<close>

definition py_isspace :: "char \<Rightarrow> bool" where
  "py_isspace c = ((of_char c :: nat) \<in> {9, 10, 11, 12, 13, 28, 29, 30, 31, 32, 133, 160})"

definition py_strip :: "string \<Rightarrow> string" where
  "py_strip s = rev (dropWhile py_isspace (rev (dropWhile py_isspace s)))"

definition startswith :: "string \<Rightarrow> string \<Rightarrow> bool" where
  "startswith s x = (take (length x) s = x)"

definition endswith :: "string \<Rightarrow> string \<Rightarrow> bool" where
  "endswith s x = (length x \<le> length s \<and> drop (length s - length x) s = x)"

text \<open>\<^verbatim>\<open>str(counter)\<close> for a counter that is never negative: the decimal digits.\<close>

definition digit_char :: "nat \<Rightarrow> char" where
  "digit_char d = char_of (48 + d)"

function py_str :: "nat \<Rightarrow> string" where
  "py_str n = (if n < 10 then [digit_char n] else py_str (n div 10) @ [digit_char (n mod 10)])"
  by pat_completeness auto
termination
  by (relation "measure id") auto

text \<open>\<^verbatim>\<open>bytes.hex()\<close> / \<^verbatim>\<open>hexdigest()\<close>, and \<^verbatim>\<open>bytes.fromhex\<close>, which skips ASCII
  whitespace between bytes and raises ValueError (\<open>None\<close>) on anything else that is
  not a pair of hexadecimal digits.\<close>

definition hex_char :: "nat \<Rightarrow> char" where
  "hex_char d = (if d < 10 then char_of (48 + d) else char_of (87 + d))"

definition hex_byte :: "byte \<Rightarrow> string" where
  "hex_byte b = [hex_char (unat b div 16), hex_char (unat b mod 16)]"

definition hex :: "bytes \<Rightarrow> string" where
  "hex bs = concat (map hex_byte bs)"

definition hex_val :: "char \<Rightarrow> nat option" where
  "hex_val c =
     (let n = (of_char c :: nat) in
      if 48 \<le> n \<and> n \<le> 57 then Some (n - 48)
      else if 97 \<le> n \<and> n \<le> 102 then Some (n - 87)
      else if 65 \<le> n \<and> n \<le> 70 then Some (n - 55)
      else None)"

definition ascii_space :: "char \<Rightarrow> bool" where
  "ascii_space c = ((of_char c :: nat) \<in> {9, 10, 11, 12, 13, 32})"

fun fromhex :: "string \<Rightarrow> bytes option" where
  "fromhex [] = Some []"
| "fromhex [c] = (if ascii_space c then Some [] else None)"
| "fromhex (c # d # s) =
     (if ascii_space c then fromhex (d # s)
      else (case (hex_val c, hex_val d) of
              (Some h, Some l) \<Rightarrow> map_option (\<lambda>r. of_nat (16 * h + l) # r) (fromhex s)
            | _ \<Rightarrow> None))"

text \<open>
  A file opened in text mode. Writing ASCII text stores its code points; reading
  decodes the bytes (\<open>None\<close>: UnicodeDecodeError, the model accepts ASCII files only,
  which is what a recovery key file holds) and translates \<^verbatim>\<open>\r\n\<close> and \<^verbatim>\<open>\r\<close> to
  \<^verbatim>\<open>\n\<close>.
\<close>

definition text_bytes :: "string \<Rightarrow> bytes" where
  "text_bytes s = map (\<lambda>c. of_nat (of_char c)) s"

fun universal_newlines :: "string \<Rightarrow> string" where
  "universal_newlines [] = []"
| "universal_newlines [c] = (if c = CHR 0x0D then [CHR 0x0A] else [c])"
| "universal_newlines (c # d # s) =
     (if c = CHR 0x0D \<and> d = CHR 0x0A then CHR 0x0A # universal_newlines s
      else if c = CHR 0x0D then CHR 0x0A # universal_newlines (d # s)
      else c # universal_newlines (d # s))"

definition read_text :: "bytes \<Rightarrow> nat \<Rightarrow> string option" where
  "read_text content n =
     (if \<forall>b \<in> set content. unat b < 128
      then Some (take n (universal_newlines (map (\<lambda>b. char_of (unat b)) content)))
      else None)"

section \<open>Paths (posixpath)\<close>

type_synonym path = string

definition os_path_basename :: "path \<Rightarrow> string" where
  "os_path_basename p = rev (takeWhile (\<lambda>c. c \<noteq> CHR ''/'') (rev p))"

text \<open>The part of a path up to and including its last separator.\<close>

definition path_head :: "path \<Rightarrow> string" where
  "path_head p = rev (dropWhile (\<lambda>c. c \<noteq> CHR ''/'') (rev p))"

definition rstrip_sep :: "string \<Rightarrow> string" where
  "rstrip_sep s = rev (dropWhile (\<lambda>c. c = CHR ''/'') (rev s))"

definition os_path_dirname :: "path \<Rightarrow> path" where
  "os_path_dirname p =
     (let head = path_head p in
      if head \<noteq> [] \<and> head \<noteq> replicate (length head) CHR ''/'' then rstrip_sep head else head)"

definition os_path_join :: "path \<Rightarrow> string \<Rightarrow> path" where
  "os_path_join a b =
     (if startswith b ''/'' then b
      else if a = [] \<or> endswith a ''/'' then a @ b
      else a @ ''/'' @ b)"

text \<open>What \<^verbatim>\<open>os.path.join\<close> puts in front of its second argument.\<close>

definition join_prefix :: "path \<Rightarrow> string \<Rightarrow> string" where
  "join_prefix d x =
     (if startswith x ''/'' then [] else if d = [] \<or> endswith d ''/'' then d else d @ ''/'')"

text \<open>
  \<^verbatim>\<open>os.path.splitext\<close>: the extension starts at the last dot of the last component,
  unless only dots come before it there.
\<close>

definition os_path_splitext :: "path \<Rightarrow> string \<times> string" where
  "os_path_splitext p =
     (let name = os_path_basename p;
          after = rev (takeWhile (\<lambda>c. c \<noteq> CHR ''.'') (rev name));
          stem = take (length name - length after - 1) name
      in if CHR ''.'' \<in> set name \<and> (\<exists>c \<in> set stem. c \<noteq> CHR ''.'')
         then (path_head p @ stem, drop (length stem) name)
         else (p, []))"

fun split_sep :: "string \<Rightarrow> string list" where
  "split_sep [] = [[]]"
| "split_sep (c # cs) =
     (if c = CHR ''/'' then [] # split_sep cs
      else (case split_sep cs of w # ws \<Rightarrow> (c # w) # ws | [] \<Rightarrow> [[c]]))"

fun sep_join :: "string list \<Rightarrow> string" where
  "sep_join [] = []"
| "sep_join [w] = w"
| "sep_join (w # ws) = w @ ''/'' @ sep_join ws"

definition norm_step :: "nat \<Rightarrow> string list \<Rightarrow> string \<Rightarrow> string list" where
  "norm_step initial_slashes new_comps component =
     (if component = [] \<or> component = ''.'' then new_comps
      else if component \<noteq> ''..'' \<or> (initial_slashes = 0 \<and> new_comps = [])
              \<or> (new_comps \<noteq> [] \<and> last new_comps = ''..'')
           then new_comps @ [component]
      else if new_comps \<noteq> [] then butlast new_comps
      else new_comps)"

definition os_path_normpath :: "path \<Rightarrow> path" where
  "os_path_normpath p =
     (if p = [] then ''.''
      else
        let initial_slashes =
              (if \<not> startswith p ''/'' then 0
               else if startswith p ''//'' \<and> \<not> startswith p ''///'' then 2 else 1);
            comps = foldl (norm_step initial_slashes) [] (split_sep p);
            q = replicate initial_slashes CHR ''/'' @ sep_join comps
        in if q = [] then ''.'' else q)"

section \<open>The file system\<close>

text \<open>
  The file system maps path strings to files and directories; it is finite. Two path
  strings are taken to name the same entry only when they are equal. The operations
  return \<open>None\<close> where the Python call raises.
\<close>

datatype node = File bytes | Dir

type_synonym fs = "(path \<times> node) list"

definition lookup :: "fs \<Rightarrow> path \<Rightarrow> node option" where
  "lookup fs p = map_of fs p"

definition os_path_exists :: "fs \<Rightarrow> path \<Rightarrow> bool" where
  "os_path_exists fs p = (lookup fs p \<noteq> None)"

definition os_path_isfile :: "fs \<Rightarrow> path \<Rightarrow> bool" where
  "os_path_isfile fs p = (case lookup fs p of Some (File b) \<Rightarrow> True | _ \<Rightarrow> False)"

definition os_path_isdir :: "fs \<Rightarrow> path \<Rightarrow> bool" where
  "os_path_isdir fs p = (lookup fs p = Some Dir)"

text \<open>\<^verbatim>\<open>open(p, "rb").read()\<close>: the whole content of a file.\<close>

definition read_file :: "fs \<Rightarrow> path \<Rightarrow> bytes option" where
  "read_file fs p = (case lookup fs p of Some (File b) \<Rightarrow> Some b | _ \<Rightarrow> None)"

text \<open>What the file at \<open>p\<close> holds once a handle opened with \<^verbatim>\<open>"wb"\<close> or \<^verbatim>\<open>"w"\<close> has
  written \<open>b\<close>; opening a directory raises.\<close>

definition write_file :: "path \<Rightarrow> bytes \<Rightarrow> fs \<Rightarrow> fs option" where
  "write_file p b fs = (if os_path_isdir fs p then None else Some (AList.update p (File b) fs))"

definition os_remove :: "path \<Rightarrow> fs \<Rightarrow> fs option" where
  "os_remove p fs = (if os_path_isfile fs p then Some (AList.delete p fs) else None)"

definition os_rmdir :: "path \<Rightarrow> fs \<Rightarrow> fs option" where
  "os_rmdir p fs = (if os_path_isdir fs p then Some (AList.delete p fs) else None)"

text \<open>\<^verbatim>\<open>os.makedirs\<close> of a directory whose parent exists (the directory of the
  container being decrypted).\<close>

definition os_makedirs :: "path \<Rightarrow> fs \<Rightarrow> fs option" where
  "os_makedirs p fs = (if os_path_exists fs p then None else Some (AList.update p Dir fs))"

text \<open>The names directly inside a directory.\<close>

definition child_name :: "path \<Rightarrow> path \<Rightarrow> string option" where
  "child_name d q =
     (let prefix = d @ ''/''; name = drop (length prefix) q in
      if take (length prefix) q = prefix \<and> name \<noteq> [] \<and> CHR ''/'' \<notin> set name
      then Some name else None)"

definition os_listdir :: "fs \<Rightarrow> path \<Rightarrow> string list" where
  "os_listdir fs d = List.map_filter (\<lambda>(q, n). child_name d q) fs"

section \<open>Name allocation\<close>

text \<open>The loop \<^verbatim>\<open>while os.path.exists(name(counter)): counter += 1\<close>; it returns the
  counter it stops at, and \<open>None\<close> when it never stops.\<close>

partial_function (option) first_free :: "(nat \<Rightarrow> path) \<Rightarrow> fs \<Rightarrow> nat \<Rightarrow> nat option" where
  "first_free name fs counter =
     (if os_path_exists fs (name counter) then first_free name fs (counter + 1)
      else Some counter)"

text \<open>
  \<^verbatim>\<open>generate_unique_file_name\<close> (lines 44-82). The outer \<open>None\<close> is a loop that does not
  end; the inner \<open>None\<close> is Python's \<^verbatim>\<open>None\<close>, returned when the path is neither a
  file nor a directory. In the directory loop the name tried first is the plain folder
  name, then \<^verbatim>\<open>"name (1)"\<close>, \<^verbatim>\<open>"name (2)"\<close>, and so on.
\<close>

definition file_candidate :: "path \<Rightarrow> string \<Rightarrow> nat \<Rightarrow> path" where
  "file_candidate file_path add_extension counter =
     (let file_directory = os_path_dirname file_path;
          (base_name, extension) = os_path_splitext (os_path_basename file_path)
      in os_path_join file_directory
           (base_name @ '' ('' @ py_str counter @ '')'' @ extension @ add_extension))"

definition folder_candidate :: "path \<Rightarrow> string \<Rightarrow> nat \<Rightarrow> path" where
  "folder_candidate file_path add_extension n =
     (let base_folder_name = os_path_basename (os_path_normpath file_path);
          unique_folder_name =
            (if n = 0 then base_folder_name else base_folder_name @ '' ('' @ py_str n @ '')'')
      in os_path_join file_path (unique_folder_name @ add_extension))"

definition generate_unique_file_name :: "fs \<Rightarrow> path \<Rightarrow> string \<Rightarrow> path option option" where
  "generate_unique_file_name fs file_path add_extension =
     (if os_path_isfile fs file_path \<and> \<not> os_path_exists fs (file_path @ add_extension)
      then Some (Some (file_path @ add_extension))
      else if os_path_isfile fs file_path \<and> os_path_exists fs (file_path @ add_extension)
      then map_option (\<lambda>counter. Some (file_candidate file_path add_extension counter))
             (first_free (file_candidate file_path add_extension) fs 1)
      else if os_path_isdir fs file_path
              \<and> \<not> os_path_exists fs
                    (os_path_join file_path (os_path_basename file_path @ add_extension))
      then Some (Some (os_path_join file_path (os_path_basename file_path @ add_extension)))
      else if os_path_isdir fs file_path
              \<and> os_path_exists fs
                    (os_path_join file_path (os_path_basename file_path @ add_extension))
      then map_option (\<lambda>n. Some (folder_candidate file_path add_extension n))
             (first_free (folder_candidate file_path add_extension) fs 0)
      else Some None)"

text \<open>\<^verbatim>\<open>generate_unique_key_file_name\<close> (lines 85-107); \<open>None\<close> is a loop that does not end.\<close>

definition key_candidate :: "path \<Rightarrow> string \<Rightarrow> nat \<Rightarrow> path" where
  "key_candidate file_path add_extension counter =
     (let (base_name, extension) = os_path_splitext (os_path_basename file_path)
      in base_name @ ''_'' @ py_str counter @ extension @ add_extension)"

definition generate_unique_key_file_name :: "fs \<Rightarrow> path \<Rightarrow> string \<Rightarrow> path option" where
  "generate_unique_key_file_name fs file_path add_extension =
     (if \<not> os_path_exists fs (file_path @ ''_'' @ add_extension)
      then Some (file_path @ ''_'' @ add_extension)
      else map_option (key_candidate file_path add_extension)
             (first_free (key_candidate file_path add_extension) fs 1))"

section \<open>Libraries and host\<close>

text \<open>
  What the program takes from its libraries and from the host is a parameter of the
  model: the two hash functions of \<^verbatim>\<open>hashlib\<close> (their values are 160 and 256 bits
  wide), the key stream of AES in EAX mode for a key and a nonce, the size the host
  reports for a directory, the directory walk of \<^verbatim>\<open>os.walk\<close> (top-down and bottom-up),
  \<^verbatim>\<open>os.path.relpath\<close>, the path of the running program, and \<^verbatim>\<open>tarfile\<close>: the bytes
  \<^verbatim>\<open>add\<close> appends for a path (\<open>None\<close> when it raises), the bytes that close an archive,
  the names of the members that are not directories (\<open>None\<close> when the bytes are no tar
  archive) and \<^verbatim>\<open>extractall\<close> (\<open>None\<close> when it raises).
\<close>

record env =
  sha1 :: "bytes \<Rightarrow> 160 word"
  sha256 :: "bytes \<Rightarrow> 256 word"
  keystream :: "bytes \<Rightarrow> bytes \<Rightarrow> nat \<Rightarrow> byte"
  dir_size :: "path \<Rightarrow> nat"
  os_walk :: "fs \<Rightarrow> path \<Rightarrow> (path \<times> string list \<times> string list) list"
  os_walk_bottom_up :: "fs \<Rightarrow> path \<Rightarrow> (path \<times> string list \<times> string list) list"
  os_path_relpath :: "path \<Rightarrow> path \<Rightarrow> string"
  program_file :: path
  tar_add :: "fs \<Rightarrow> path \<Rightarrow> string \<Rightarrow> bytes option"
  tar_end :: bytes
  tar_names :: "bytes \<Rightarrow> string list option"
  tar_extractall :: "bytes \<Rightarrow> path \<Rightarrow> fs \<Rightarrow> fs option"

text \<open>\<^verbatim>\<open>digest()\<close>: the bytes of a hash value, most significant first.\<close>

definition digest :: "'a::len word \<Rightarrow> bytes" where
  "digest w = map (\<lambda>i. ucast (drop_bit (8 * i) w)) (rev [0..<LENGTH('a) div 8])"

definition os_path_getsize :: "env \<Rightarrow> fs \<Rightarrow> path \<Rightarrow> nat option" where
  "os_path_getsize env fs p =
     (case lookup fs p of
        None \<Rightarrow> None
      | Some (File b) \<Rightarrow> Some (length b)
      | Some Dir \<Rightarrow> Some (dir_size env p))"

text \<open>The content of the file behind an open handle after the handle wrote \<open>b\<close>.\<close>

definition store :: "path \<Rightarrow> bytes \<Rightarrow> fs \<Rightarrow> fs" where
  "store p b fs = AList.update p (File b) fs"

section \<open>The cipher\<close>

text \<open>
  \<^verbatim>\<open>AES.new(key, AES.MODE_EAX, iv)\<close> raises unless the key has 16, 24 or 32 bytes. The
  object it returns encrypts and decrypts by adding (XOR) the key stream of the key and
  the nonce to the data, continuing where the previous call stopped; the tag the mode
  could compute is never asked for. \<open>pos\<close> is the number of bytes the object has
  processed.
\<close>

definition aes_key_ok :: "bytes \<Rightarrow> bool" where
  "aes_key_ok key = (length key = 16 \<or> length key = 24 \<or> length key = 32)"

definition crypt_chunk :: "env \<Rightarrow> bytes \<Rightarrow> bytes \<Rightarrow> nat \<Rightarrow> bytes \<Rightarrow> bytes" where
  "crypt_chunk env key nonce pos chunk =
     map (\<lambda>(b, i). b XOR keystream env key nonce i) (zip chunk [pos..<pos + length chunk])"

text \<open>The loop of lines 762-771: read \<open>block_size\<close> bytes, stop at an empty read,
  encrypt and write the chunk. The result is everything the loop wrote.\<close>

function encrypt_loop :: "env \<Rightarrow> bytes \<Rightarrow> bytes \<Rightarrow> nat \<Rightarrow> nat \<Rightarrow> bytes \<Rightarrow> bytes" where
  "encrypt_loop env key iv block_size pos unread =
     (let chunk = take block_size unread in
      if chunk = [] then []
      else crypt_chunk env key iv pos chunk
           @ encrypt_loop env key iv block_size (pos + length chunk) (drop block_size unread))"
  by pat_completeness auto
termination
  by (relation "measure (\<lambda>(env, key, iv, block_size, pos, unread). length unread)") auto

declare encrypt_loop.simps [simp del]

text \<open>The loop of lines 950-959 over the ciphertext held in memory. With a block size
  of 0 and data to decrypt it does not end.\<close>

partial_function (option) decrypt_loop ::
  "env \<Rightarrow> bytes \<Rightarrow> bytes \<Rightarrow> nat \<Rightarrow> bytes \<Rightarrow> nat \<Rightarrow> nat \<Rightarrow> bytes \<Rightarrow> bytes option" where
  "decrypt_loop env key iv block_size encrypted_data offset pos written =
     (if offset < length encrypted_data
      then (let chunk = take block_size (drop offset encrypted_data) in
            decrypt_loop env key iv block_size encrypted_data (offset + block_size)
              (pos + length chunk) (written @ crypt_chunk env key iv pos chunk))
      else Some written)"

section \<open>Outcomes\<close>

text \<open>
  Every message box that ends a job, by the check that raised it. \<open>Uncaught\<close> is an
  exception that leaves the handler; \<open>Encrypted\<close> and \<open>Decrypted\<close> are the success
  messages, with the paths the job chose (the container, the IV key file and the
  recovery key file; the extraction directory and the decrypted file).
\<close>

datatype message =
    PathEmpty | PasswordEmpty | PasswordsDiffer | PathInvalid
  | RecoveryPathInvalid | RecoveryKeyCorrupt | KeyFilePathInvalid | NameInvalid
  | SizeBelow36 | IvKeyPathInvalid | IvKeyCorrupt | IvHashMismatch | SizeBelow20
  | UnhandledException

datatype outcome =
    Encrypted path "path option" "path option"
  | Decrypted path path
  | Rejected message
  | Uncaught

datatype 'a attempt = Returned 'a | Raised

definition validation_error :: "message \<Rightarrow> bool" where
  "validation_error m = (m \<noteq> IvHashMismatch \<and> m \<noteq> UnhandledException)"

section \<open>Packing a directory\<close>

definition sentinel_name :: string where
  "sentinel_name = ''~encrypto_pack''"

definition sentinel_text :: string where
  "sentinel_text = ''encrypto_packed_this_tar_file''"

text \<open>The two inner loops of \<^verbatim>\<open>compress_directory\<close> (lines 538-554). Adding a directory
  is not guarded: \<open>None\<close> is the exception. Adding a file is: a file that cannot be
  added goes to the failed list.\<close>

fun add_dirs :: "env \<Rightarrow> fs \<Rightarrow> path \<Rightarrow> path \<Rightarrow> string list \<Rightarrow> bytes \<Rightarrow> bytes attempt \<times> bytes" where
  "add_dirs env fs folder_path root [] archive = (Returned archive, archive)"
| "add_dirs env fs folder_path root (d # dirs) archive =
     (let dir_path = os_path_join root d in
      case tar_add env fs dir_path (os_path_relpath env dir_path folder_path) of
        None \<Rightarrow> (Raised, archive)
      | Some entry \<Rightarrow> add_dirs env fs folder_path root dirs (archive @ entry))"

fun add_files ::
  "env \<Rightarrow> fs \<Rightarrow> path \<Rightarrow> path \<Rightarrow> path \<Rightarrow> string list \<Rightarrow> bytes \<times> path list \<times> path list
   \<Rightarrow> bytes \<times> path list \<times> path list" where
  "add_files env fs folder_path compressed_file_path root [] acc = acc"
| "add_files env fs folder_path compressed_file_path root (f # files)
     (archive, compressed_files, failed_list) =
     (let file_path = os_path_join root f in
      if file_path = program_file env \<or> file_path = compressed_file_path
      then add_files env fs folder_path compressed_file_path root files
             (archive, compressed_files, failed_list)
      else (case tar_add env fs file_path (os_path_relpath env file_path folder_path) of
              Some entry \<Rightarrow>
                add_files env fs folder_path compressed_file_path root files
                  (archive @ entry, compressed_files @ [file_path], failed_list)
            | None \<Rightarrow>
                add_files env fs folder_path compressed_file_path root files
                  (archive, compressed_files, failed_list @ [file_path])))"

fun pack_walk ::
  "env \<Rightarrow> fs \<Rightarrow> path \<Rightarrow> path \<Rightarrow> (path \<times> string list \<times> string list) list
   \<Rightarrow> bytes \<times> path list \<times> path list \<Rightarrow> (path list \<times> path list) attempt \<times> bytes" where
  "pack_walk env fs folder_path compressed_file_path [] (archive, compressed_files, failed_list) =
     (Returned (compressed_files, failed_list), archive)"
| "pack_walk env fs folder_path compressed_file_path ((root, dirs, files) # walk)
     (archive, compressed_files, failed_list) =
     (case add_dirs env fs folder_path root dirs archive of
        (Raised, archive1) \<Rightarrow> (Raised, archive1)
      | (Returned archive1, _) \<Rightarrow>
          pack_walk env fs folder_path compressed_file_path walk
            (add_files env fs folder_path compressed_file_path root files
               (archive1, compressed_files, failed_list)))"

text \<open>
  \<^verbatim>\<open>compress_directory\<close> (lines 519-565). The marker file is written into the folder,
  the archive is created and filled by the walk, the marker file is removed, an
  archive without a packed file is removed. With a non-empty failed list the call
  \<^verbatim>\<open>QMessageBox.warning("Warning", ...)\<close> of line 563 has no parent widget as its first
  argument and raises TypeError.
\<close>

definition compress_directory :: "env \<Rightarrow> path \<Rightarrow> path \<Rightarrow> fs \<Rightarrow> path list attempt \<times> fs" where
  "compress_directory env folder_path compressed_file_path fs =
     (let empty_file_path = os_path_join folder_path sentinel_name in
      case write_file empty_file_path (text_bytes sentinel_text) fs of
        None \<Rightarrow> (Raised, fs)
      | Some fs1 \<Rightarrow>
          (case write_file compressed_file_path [] fs1 of
             None \<Rightarrow> (Raised, fs1)
           | Some fs2 \<Rightarrow>
               (case pack_walk env fs2 folder_path compressed_file_path
                       (os_walk env fs2 folder_path) ([], [], []) of
                  (Raised, archive) \<Rightarrow>
                    (Raised, store compressed_file_path (archive @ tar_end env) fs2)
                | (Returned (compressed_files, failed_list), archive) \<Rightarrow>
                    (let fs3 = store compressed_file_path (archive @ tar_end env) fs2 in
                     case os_remove empty_file_path fs3 of
                       None \<Rightarrow> (Raised, fs3)
                     | Some fs4 \<Rightarrow>
                         (case (if compressed_files = [] then os_remove compressed_file_path fs4
                                else Some fs4) of
                            None \<Rightarrow> (Raised, fs4)
                          | Some fs5 \<Rightarrow>
                              if failed_list \<noteq> [] then (Raised, fs5)
                              else (Returned compressed_files, fs5))))))"

section \<open>The encryption job\<close>

text \<open>The state of the option buttons and entry fields when Encrypt is clicked (the
  progress bar option only drives the display and is left out).\<close>

record encrypt_form =
  enc_password :: string
  enc_confirm_password :: string
  enc_file_path :: path
  gen_iv_key :: bool
  gen_recovery_key :: bool
  enc_remove_files :: bool

text \<open>Lines 750-757: the IV goes to the open container, or to an IV key file whose
  name is allocated now. The result names the key file, if one was written.\<close>

definition write_iv ::
  "bytes \<Rightarrow> bool \<Rightarrow> path \<Rightarrow> path \<Rightarrow> fs \<Rightarrow> (path option attempt \<times> fs) option" where
  "write_iv iv separate_iv_key file_to_encrypt encrypted_file_path fs =
     (if \<not> separate_iv_key then Some (Returned None, store encrypted_file_path iv fs)
      else
        (case (if \<not> os_path_exists fs (file_to_encrypt @ ''.ivkey'')
               then Some (file_to_encrypt @ ''.ivkey'')
               else generate_unique_key_file_name fs file_to_encrypt ''.ivkey'') of
           None \<Rightarrow> None
         | Some iv_key_file \<Rightarrow>
             (case write_file iv_key_file iv fs of
                None \<Rightarrow> Some (Raised, fs)
              | Some fs1 \<Rightarrow> Some (Returned (Some iv_key_file), fs1))))"

text \<open>
  Lines 744-774: the container is created, the size of the input is asked for, the
  IV is written, the input is read and encrypted chunk by chunk, and the hash of the
  IV closes the container. An exception leaves the file system as it is at that
  point.
\<close>

definition encrypt_file ::
  "env \<Rightarrow> nat \<Rightarrow> bytes \<Rightarrow> bytes \<Rightarrow> bool \<Rightarrow> path \<Rightarrow> path \<Rightarrow> fs
   \<Rightarrow> (path option attempt \<times> fs) option" where
  "encrypt_file env block_size key iv separate_iv_key file_to_encrypt encrypted_file_path fs =
     (case write_file encrypted_file_path [] fs of
        None \<Rightarrow> Some (Raised, fs)
      | Some fs1 \<Rightarrow>
          (case os_path_getsize env fs1 file_to_encrypt of
             None \<Rightarrow> Some (Raised, fs1)
           | Some file_size \<Rightarrow>
               (case write_iv iv separate_iv_key file_to_encrypt encrypted_file_path fs1 of
                  None \<Rightarrow> None
                | Some (Raised, fs2) \<Rightarrow> Some (Raised, fs2)
                | Some (Returned iv_key_file, fs2) \<Rightarrow>
                    (case read_file fs2 file_to_encrypt of
                       None \<Rightarrow> Some (Raised, fs2)
                     | Some plain \<Rightarrow>
                         if \<not> aes_key_ok key then Some (Raised, fs2)
                         else Some (Returned iv_key_file,
                                store encrypted_file_path
                                  ((if separate_iv_key then [] else iv)
                                   @ encrypt_loop env key iv block_size 0 plain
                                   @ digest (sha1 env iv)) fs2)))))"

text \<open>Lines 777-787: the sources are removed. For a directory these are the packed
  files, then every directory below it that is empty, bottom-up.\<close>

fun remove_all :: "path list \<Rightarrow> fs \<Rightarrow> unit attempt \<times> fs" where
  "remove_all [] fs = (Returned (), fs)"
| "remove_all (f # files) fs =
     (case os_remove f fs of None \<Rightarrow> (Raised, fs) | Some fs1 \<Rightarrow> remove_all files fs1)"

fun prune_dirs :: "path \<Rightarrow> string list \<Rightarrow> fs \<Rightarrow> unit attempt \<times> fs" where
  "prune_dirs root [] fs = (Returned (), fs)"
| "prune_dirs root (d # dirs) fs =
     (let dir_path = os_path_join root d in
      if \<not> os_path_isdir fs dir_path then (Raised, fs)
      else if os_listdir fs dir_path = []
      then (case os_rmdir dir_path fs of
              None \<Rightarrow> (Raised, fs)
            | Some fs1 \<Rightarrow> prune_dirs root dirs fs1)
      else prune_dirs root dirs fs)"

fun prune_walk :: "(path \<times> string list \<times> string list) list \<Rightarrow> fs \<Rightarrow> unit attempt \<times> fs" where
  "prune_walk [] fs = (Returned (), fs)"
| "prune_walk ((root, dirs, files) # walk) fs =
     (case prune_dirs root dirs fs of
        (Raised, fs1) \<Rightarrow> (Raised, fs1)
      | (Returned u, fs1) \<Rightarrow> prune_walk walk fs1)"

definition remove_sources :: "env \<Rightarrow> path \<Rightarrow> path list \<Rightarrow> fs \<Rightarrow> unit attempt \<times> fs" where
  "remove_sources env file_path compressed_files fs =
     (if os_path_isfile fs file_path
      then (case os_remove file_path fs of
              None \<Rightarrow> (Raised, fs)
            | Some fs1 \<Rightarrow> (Returned (), fs1))
      else if os_path_isdir fs file_path
      then (case remove_all compressed_files fs of
              (Raised, fs1) \<Rightarrow> (Raised, fs1)
            | (Returned u, fs1) \<Rightarrow> prune_walk (os_walk_bottom_up env fs1 file_path) fs1)
      else (Returned (), fs))"

text \<open>Lines 790-794: the recovery key file holds the hexadecimal SHA-256 digest of
  the password.\<close>

definition write_recovery_key ::
  "env \<Rightarrow> string \<Rightarrow> path \<Rightarrow> fs \<Rightarrow> (path attempt \<times> fs) option" where
  "write_recovery_key env password file_to_encrypt fs =
     (case generate_unique_key_file_name fs file_to_encrypt ''.rkey'' of
        None \<Rightarrow> None
      | Some keyfile \<Rightarrow>
          (let hashkey = hex (digest (sha256 env (encode password))) in
           case write_file keyfile (text_bytes hashkey) fs of
             None \<Rightarrow> Some (Raised, fs)
           | Some fs1 \<Rightarrow> Some (Returned keyfile, fs1)))"

text \<open>Lines 742-805, the guarded part of the job: every exception in it ends the job
  with the message "Unhandled Exception Error".\<close>

definition run_encryption ::
  "env \<Rightarrow> nat \<Rightarrow> bytes \<Rightarrow> bytes \<Rightarrow> encrypt_form \<Rightarrow> path \<Rightarrow> path list \<Rightarrow> path \<Rightarrow> fs
   \<Rightarrow> (outcome \<times> fs) option" where
  "run_encryption env block_size key iv form file_to_encrypt compressed_files
     encrypted_file_path fs =
     (case encrypt_file env block_size key iv (gen_iv_key form) file_to_encrypt
             encrypted_file_path fs of
        None \<Rightarrow> None
      | Some (Raised, fs1) \<Rightarrow> Some (Rejected UnhandledException, fs1)
      | Some (Returned iv_key_file, fs1) \<Rightarrow>
          (case (if enc_remove_files form
                 then remove_sources env (enc_file_path form) compressed_files fs1
                 else (Returned (), fs1)) of
             (Raised, fs2) \<Rightarrow> Some (Rejected UnhandledException, fs2)
           | (Returned u, fs2) \<Rightarrow>
               (case (if gen_recovery_key form
                      then (case write_recovery_key env (enc_password form) file_to_encrypt fs2 of
                              None \<Rightarrow> None
                            | Some (Raised, fs3) \<Rightarrow> Some (Raised, fs3)
                            | Some (Returned keyfile, fs3) \<Rightarrow> Some (Returned (Some keyfile), fs3))
                      else Some (Returned None, fs2)) of
                  None \<Rightarrow> None
                | Some (Raised, fs3) \<Rightarrow> Some (Rejected UnhandledException, fs3)
                | Some (Returned keyfile, fs3) \<Rightarrow>
                    if os_path_isdir fs3 (enc_file_path form)
                    then (case os_remove file_to_encrypt fs3 of
                            None \<Rightarrow> Some (Rejected UnhandledException, fs3)
                          | Some fs4 \<Rightarrow>
                              Some (Encrypted encrypted_file_path iv_key_file keyfile, fs4))
                    else Some (Encrypted encrypted_file_path iv_key_file keyfile, fs3))))"

text \<open>
  \<^verbatim>\<open>encrypt_button_click\<close> (lines 673-805) for a given chunk size and a given result
  \<open>iv\<close> of \<^verbatim>\<open>get_random_bytes(16)\<close>. \<open>None\<close> is a job that does not end (a naming loop).
  A directory is packed first and the archive is what gets encrypted; a container
  name of \<^verbatim>\<open>None\<close> raises ValueError outside every handler (line 738).
\<close>

definition encrypt_job ::
  "env \<Rightarrow> nat \<Rightarrow> bytes \<Rightarrow> encrypt_form \<Rightarrow> fs \<Rightarrow> (outcome \<times> fs) option" where
  "encrypt_job env block_size iv form fs =
     (let password = enc_password form; file_path = enc_file_path form in
      if file_path = [] then Some (Rejected PathEmpty, fs)
      else if py_strip password = [] then Some (Rejected PasswordEmpty, fs)
      else if password \<noteq> enc_confirm_password form then Some (Rejected PasswordsDiffer, fs)
      else if \<not> (os_path_isfile fs file_path \<or> os_path_isdir fs file_path)
              \<or> \<not> os_path_exists fs file_path
      then Some (Rejected PathInvalid, fs)
      else
        let key = digest (sha256 env (encode password)) in
        if os_path_isdir fs file_path
        then
          (case generate_unique_file_name fs file_path ''.temp'' of
             None \<Rightarrow> None
           | Some None \<Rightarrow> Some (Rejected UnhandledException, fs)
           | Some (Some compressed_file_path) \<Rightarrow>
               (case compress_directory env file_path compressed_file_path fs of
                  (Raised, fs1) \<Rightarrow> Some (Rejected UnhandledException, fs1)
                | (Returned compressed_files, fs1) \<Rightarrow>
                    (case generate_unique_file_name fs1 file_path ''.pack'' of
                       None \<Rightarrow> None
                     | Some None \<Rightarrow> Some (Uncaught, fs1)
                     | Some (Some encrypted_file_path) \<Rightarrow>
                         run_encryption env block_size key iv form compressed_file_path
                           compressed_files encrypted_file_path fs1)))
        else
          (case generate_unique_file_name fs file_path ''.pack'' of
             None \<Rightarrow> None
           | Some None \<Rightarrow> Some (Uncaught, fs)
           | Some (Some encrypted_file_path) \<Rightarrow>
               run_encryption env block_size key iv form file_path [] encrypted_file_path fs))"

text \<open>The job with the chunk size the advisor gives for the memory the host reports.\<close>

definition encrypt_button_click ::
  "env \<Rightarrow> int option \<Rightarrow> bytes \<Rightarrow> encrypt_form \<Rightarrow> fs \<Rightarrow> (outcome \<times> fs) option" where
  "encrypt_button_click env available iv form fs =
     (case get_optimal_block_size available of
        Some block_size \<Rightarrow> encrypt_job env (nat block_size) iv form fs
      | None \<Rightarrow> Some (Uncaught, fs))"

section \<open>The decryption job\<close>

record decrypt_form =
  dec_recovery_key_file :: string
  dec_iv_key_file :: string
  dec_password :: string
  dec_file_path :: path
  dec_remove_files :: bool

text \<open>Lines 815-838: the input checks. \<open>Some\<close> is the outcome that ends the job.\<close>

definition validate_decrypt :: "env \<Rightarrow> decrypt_form \<Rightarrow> fs \<Rightarrow> outcome option" where
  "validate_decrypt env form fs =
     (let recovery_key_file = dec_recovery_key_file form;
          iv_key_file = dec_iv_key_file form;
          password = dec_password form;
          file_path = dec_file_path form
      in
      if file_path = [] then Some (Rejected PathEmpty)
      else if py_strip password = [] \<and> py_strip recovery_key_file = []
      then Some (Rejected PasswordEmpty)
      else if \<not> (os_path_isfile fs file_path \<or> os_path_isdir fs file_path)
              \<or> \<not> os_path_exists fs file_path
      then Some (Rejected PathInvalid)
      else if py_strip recovery_key_file \<noteq> []
              \<and> \<not> os_path_exists fs (py_strip recovery_key_file)
      then Some (Rejected RecoveryPathInvalid)
      else if py_strip recovery_key_file \<noteq> []
              \<and> (case os_path_getsize env fs (py_strip recovery_key_file) of
                    None \<Rightarrow> False
                  | Some recovery_key_file_size \<Rightarrow> recovery_key_file_size < 64)
      then Some (Rejected RecoveryKeyCorrupt)
      else if py_strip iv_key_file \<noteq> [] \<and> \<not> os_path_exists fs (py_strip iv_key_file)
      then Some (Rejected KeyFilePathInvalid)
      else None)"

text \<open>Lines 849-864: the key is the SHA-256 digest of the password, or what the
  first 64 characters of the recovery key file decode to; \<open>None\<close> is an exception,
  which no handler catches here.\<close>

definition resolve_key :: "env \<Rightarrow> decrypt_form \<Rightarrow> fs \<Rightarrow> bytes option" where
  "resolve_key env form fs =
     (if py_strip (dec_recovery_key_file form) \<noteq> []
      then (case read_file fs (py_strip (dec_recovery_key_file form)) of
              None \<Rightarrow> None
            | Some content \<Rightarrow>
                (case read_text content 64 of
                   None \<Rightarrow> None
                 | Some password \<Rightarrow> fromhex password))
      else Some (digest (sha256 env (encode (dec_password form)))))"

text \<open>Lines 866-873: the container is the file itself, or, for a directory, the file
  inside it that is named after it.\<close>

definition container_path :: "fs \<Rightarrow> path \<Rightarrow> path option" where
  "container_path fs file_path =
     (if os_path_isdir fs file_path
      then Some (os_path_join file_path (os_path_basename file_path @ ''.pack''))
      else if os_path_isfile fs file_path then Some file_path
      else None)"

text \<open>\<^verbatim>\<open>file.seek(-20, os.SEEK_END); file.read()\<close>: the last 20 bytes; the seek raises
  OSError on a file shorter than that.\<close>

definition read_tail :: "bytes \<Rightarrow> bytes option" where
  "read_tail content =
     (if length content < 20 then None else Some (drop (length content - 20) content))"

text \<open>
  Lines 877-901: the IV and the expected hash. With the IV in the container its size is
  checked first, and nothing here is guarded; with an IV key file the reads are
  guarded and the size of the container is not looked at.
\<close>

definition read_iv ::
  "env \<Rightarrow> string option \<Rightarrow> path \<Rightarrow> fs \<Rightarrow> outcome + (bytes \<times> bytes)" where
  "read_iv env separate_iv_key file_to_decrypt fs =
     (case separate_iv_key of
        None \<Rightarrow>
          (case os_path_getsize env fs file_to_decrypt of
             None \<Rightarrow> Inl Uncaught
           | Some n \<Rightarrow>
               if n < 36 then Inl (Rejected SizeBelow36)
               else (case read_file fs file_to_decrypt of
                       None \<Rightarrow> Inl Uncaught
                     | Some content \<Rightarrow>
                         (case read_tail content of
                            None \<Rightarrow> Inl Uncaught
                          | Some expected_iv_hash \<Rightarrow> Inr (take 16 content, expected_iv_hash))))
      | Some key_path \<Rightarrow>
          if \<not> os_path_exists fs key_path then Inl (Rejected IvKeyPathInvalid)
          else
            (case os_path_getsize env fs key_path of
               None \<Rightarrow> Inl Uncaught
             | Some n \<Rightarrow>
                 if n < 16 then Inl (Rejected IvKeyCorrupt)
                 else (case read_file fs key_path of
                         None \<Rightarrow> Inl (Rejected UnhandledException)
                       | Some key_content \<Rightarrow>
                           (case read_file fs file_to_decrypt of
                              None \<Rightarrow> Inl (Rejected UnhandledException)
                            | Some content \<Rightarrow>
                                (case read_tail content of
                                   None \<Rightarrow> Inl (Rejected UnhandledException)
                                 | Some expected_iv_hash \<Rightarrow>
                                     Inr (take 16 key_content, expected_iv_hash))))))"

text \<open>Lines 908-911: with an IV key file, the size of the container is checked after
  the hash of the IV.\<close>

definition check_external_size :: "env \<Rightarrow> string option \<Rightarrow> path \<Rightarrow> fs \<Rightarrow> outcome option" where
  "check_external_size env separate_iv_key file_to_decrypt fs =
     (case separate_iv_key of
        None \<Rightarrow> None
      | Some key_path \<Rightarrow>
          (case os_path_getsize env fs file_to_decrypt of
             None \<Rightarrow> Some Uncaught
           | Some n \<Rightarrow> if n < 20 then Some (Rejected SizeBelow20) else None))"

text \<open>Lines 913-923: the extraction directory. \<open>rand\<close> gives the results of the calls
  of \<^verbatim>\<open>generate_random_string(5)\<close>, in order; candidate 0 is the plain name.\<close>

definition unpacked_base :: "path \<Rightarrow> string" where
  "unpacked_base file_to_decrypt =
     (let base_file_name = os_path_basename file_to_decrypt in
      if endswith base_file_name ''.pack''
      then fst (os_path_splitext (os_path_basename base_file_name))
      else base_file_name)"

definition extraction_candidate :: "path \<Rightarrow> (nat \<Rightarrow> string) \<Rightarrow> nat \<Rightarrow> path" where
  "extraction_candidate file_to_decrypt rand n =
     os_path_join (os_path_dirname file_to_decrypt)
       (if n = 0 then unpacked_base file_to_decrypt @ ''_unpacked''
        else unpacked_base file_to_decrypt @ ''_unpacked;'' @ rand (n - 1))"

text \<open>Lines 925-930: the path of the decrypted file.\<close>

definition decrypted_path :: "path \<Rightarrow> path \<Rightarrow> path" where
  "decrypted_path extraction_dir file_to_decrypt =
     (let decrypted_file_name =
            (if endswith file_to_decrypt ''.pack''
             then fst (os_path_splitext (os_path_basename file_to_decrypt))
             else file_to_decrypt)
      in os_path_join extraction_dir decrypted_file_name)"

text \<open>
  Lines 932-959, guarded: the output file is created, the container is read, and the
  bytes between the IV (when it is inside) and the last 20 bytes are decrypted chunk by
  chunk into the output file. \<open>False\<close> is an exception.
\<close>

definition decrypt_stream ::
  "env \<Rightarrow> nat \<Rightarrow> bytes \<Rightarrow> bytes \<Rightarrow> bool \<Rightarrow> path \<Rightarrow> path \<Rightarrow> fs \<Rightarrow> (bool \<times> fs) option" where
  "decrypt_stream env block_size key iv inline file_to_decrypt decrypted_file_path fs =
     (case write_file decrypted_file_path [] fs of
        None \<Rightarrow> Some (False, fs)
      | Some fs1 \<Rightarrow>
          (case os_path_getsize env fs1 file_to_decrypt of
             None \<Rightarrow> Some (False, fs1)
           | Some n \<Rightarrow>
               (case read_file fs1 file_to_decrypt of
                  None \<Rightarrow> Some (False, fs1)
                | Some content \<Rightarrow>
                    (let unread = (if inline then drop 16 content else content);
                         encrypted_data = take (length unread - 20) unread
                     in if \<not> aes_key_ok key then Some (False, fs1)
                        else (case decrypt_loop env key iv block_size encrypted_data 0 0 [] of
                                None \<Rightarrow> None
                              | Some decrypted_data \<Rightarrow>
                                  Some (True, store decrypted_file_path decrypted_data fs1))))))"

text \<open>
  \<^verbatim>\<open>decrypt_button_click\<close> from its start to the end of the decryption loop (lines
  807-959), for a given chunk size. \<open>None\<close> is a job that does not end.
\<close>

definition decrypt_to_file ::
  "env \<Rightarrow> nat \<Rightarrow> (nat \<Rightarrow> string) \<Rightarrow> decrypt_form \<Rightarrow> fs \<Rightarrow> (outcome \<times> fs) option" where
  "decrypt_to_file env block_size rand form fs =
     (case validate_decrypt env form fs of
        Some rejected \<Rightarrow> Some (rejected, fs)
      | None \<Rightarrow>
          (let separate_iv_key =
                 (if py_strip (dec_iv_key_file form) \<noteq> []
                  then Some (py_strip (dec_iv_key_file form)) else None)
           in
           case resolve_key env form fs of
             None \<Rightarrow> Some (Uncaught, fs)
           | Some key \<Rightarrow>
               (case container_path fs (dec_file_path form) of
                  None \<Rightarrow> Some (Rejected NameInvalid, fs)
                | Some file_to_decrypt \<Rightarrow>
                    (case read_iv env separate_iv_key file_to_decrypt fs of
                       Inl stopped \<Rightarrow> Some (stopped, fs)
                     | Inr (iv, expected_iv_hash) \<Rightarrow>
                         if digest (sha1 env iv) \<noteq> expected_iv_hash
                         then Some (Rejected IvHashMismatch, fs)
                         else
                           (case check_external_size env separate_iv_key file_to_decrypt fs of
                              Some stopped \<Rightarrow> Some (stopped, fs)
                            | None \<Rightarrow>
                           (case first_free (extraction_candidate file_to_decrypt rand) fs 0 of
                              None \<Rightarrow> None
                            | Some n \<Rightarrow>
                                (let extraction_dir = extraction_candidate file_to_decrypt rand n
                                 in case os_makedirs extraction_dir fs of
                                      None \<Rightarrow> Some (Uncaught, fs)
                                    | Some fs1 \<Rightarrow>
                                        (let decrypted_file_path =
                                               decrypted_path extraction_dir file_to_decrypt
                                         in case decrypt_stream env block_size key iv
                                                   (separate_iv_key = None) file_to_decrypt
                                                   decrypted_file_path fs1 of
                                              None \<Rightarrow> None
                                            | Some (False, fs2) \<Rightarrow>
                                                Some (Rejected UnhandledException, fs2)
                                            | Some (True, fs2) \<Rightarrow>
                                                Some (Decrypted extraction_dir
                                                        decrypted_file_path, fs2)))))))))"

text \<open>Lines 961-980: a decrypted file that is a tar archive with the marker member is
  unpacked and removed; the container is removed when asked for.\<close>

definition unpack_archive :: "env \<Rightarrow> path \<Rightarrow> path \<Rightarrow> fs \<Rightarrow> bool \<times> fs" where
  "unpack_archive env extraction_dir decrypted_file_path fs =
     (case read_file fs decrypted_file_path of
        None \<Rightarrow> (False, fs)
      | Some content \<Rightarrow>
          (case tar_names env content of
             None \<Rightarrow> (True, fs)
           | Some files_list \<Rightarrow>
               if sentinel_name \<in> set files_list
               then (case tar_extractall env content extraction_dir fs of
                       None \<Rightarrow> (False, fs)
                     | Some fs1 \<Rightarrow>
                         (case os_remove (os_path_join extraction_dir sentinel_name) fs1 of
                            None \<Rightarrow> (False, fs1)
                          | Some fs2 \<Rightarrow>
                              (case os_remove decrypted_file_path fs2 of
                                 None \<Rightarrow> (False, fs2)
                               | Some fs3 \<Rightarrow> (True, fs3))))
               else (True, fs)))"

definition finish_decrypt ::
  "env \<Rightarrow> bool \<Rightarrow> path \<Rightarrow> path \<Rightarrow> path \<Rightarrow> fs \<Rightarrow> outcome \<times> fs" where
  "finish_decrypt env remove_encrypted_files file_to_decrypt extraction_dir
     decrypted_file_path fs =
     (case unpack_archive env extraction_dir decrypted_file_path fs of
        (False, fs1) \<Rightarrow> (Rejected UnhandledException, fs1)
      | (True, fs1) \<Rightarrow>
          if remove_encrypted_files
          then (case os_remove file_to_decrypt fs1 of
                  None \<Rightarrow> (Rejected UnhandledException, fs1)
                | Some fs2 \<Rightarrow> (Decrypted extraction_dir decrypted_file_path, fs2))
          else (Decrypted extraction_dir decrypted_file_path, fs1))"

definition decrypt_job ::
  "env \<Rightarrow> nat \<Rightarrow> (nat \<Rightarrow> string) \<Rightarrow> decrypt_form \<Rightarrow> fs \<Rightarrow> (outcome \<times> fs) option" where
  "decrypt_job env block_size rand form fs =
     (case decrypt_to_file env block_size rand form fs of
        Some (Decrypted extraction_dir decrypted_file_path, fs1) \<Rightarrow>
          (case container_path fs (dec_file_path form) of
             None \<Rightarrow> Some (Rejected NameInvalid, fs1)
           | Some file_to_decrypt \<Rightarrow>
               Some (finish_decrypt env (dec_remove_files form) file_to_decrypt extraction_dir
                       decrypted_file_path fs1))
      | other \<Rightarrow> other)"

definition decrypt_button_click ::
  "env \<Rightarrow> int option \<Rightarrow> (nat \<Rightarrow> string) \<Rightarrow> decrypt_form \<Rightarrow> fs \<Rightarrow> (outcome \<times> fs) option" where
  "decrypt_button_click env available rand form fs =
     (case get_optimal_block_size available of
        Some block_size \<Rightarrow> decrypt_job env (nat block_size) rand form fs
      | None \<Rightarrow> Some (Uncaught, fs))"

section \<open>Properties\<close>

lemma get_optimal_block_size_tier:
  "get_optimal_block_size (Some m) = Some (documented_tier (m div 1024 ^ 3))"
  by (simp add: get_optimal_block_size_def documented_tier_def Let_def)

lemma documented_tier_mono: "g \<le> h \<Longrightarrow> documented_tier g \<le> documented_tier h"
  by (simp add: documented_tier_def)

lemma documented_tier_range: "documented_tier g \<in> chunk_sizes"
  by (simp add: documented_tier_def chunk_sizes_def)

text \<open>
  Claim C9. The chunk size advisor is a total function of the available memory: for
  every memory input it returns the documented tier of the whole number of GiB
  (at most 1: 64 KiB, 2: 128 KiB, 3: 256 KiB, up to 6: 512 KiB, up to 12: 1 MiB, up to
  24: 1.5 MiB, above: 3 MiB), a member of the seven documented sizes; a failed
  memory query gives 524288; and a larger memory input never gives a smaller chunk.
\<close>

theorem get_optimal_block_size_spec:
  "get_optimal_block_size (Some m) = Some (documented_tier (m div 1024 ^ 3))
   \<and> documented_tier (m div 1024 ^ 3) \<in> chunk_sizes
   \<and> get_optimal_block_size None = Some 524288
   \<and> (\<forall>m'. m \<le> m' \<longrightarrow>
          the (get_optimal_block_size (Some m)) \<le> the (get_optimal_block_size (Some m')))"
proof -
  have mono: "the (get_optimal_block_size (Some m)) \<le> the (get_optimal_block_size (Some m'))"
    if "m \<le> m'" for m'
  proof -
    have "m div 1024 ^ 3 \<le> m' div 1024 ^ 3"
      using that by (simp add: zdiv_mono1)
    then show ?thesis
      by (simp add: get_optimal_block_size_tier documented_tier_mono)
  qed
  show ?thesis
    using mono
    by (simp add: get_optimal_block_size_tier documented_tier_range)
       (simp add: get_optimal_block_size_def)
qed

theorem get_optimal_block_size_spec_witness:
  "get_optimal_block_size (Some (8 * 1024 ^ 3)) = Some 1048576
   \<and> get_optimal_block_size (Some (1024 ^ 3)) = Some 65536
   \<and> get_optimal_block_size (Some (32 * 1024 ^ 3)) = Some 3145728
   \<and> the (get_optimal_block_size (Some (1024 ^ 3)))
       \<le> the (get_optimal_block_size (Some (8 * 1024 ^ 3)))"
proof -
  have le: "(1024 ^ 3 :: int) \<le> 8 * 1024 ^ 3" by simp
  have "the (get_optimal_block_size (Some (1024 ^ 3)))
       \<le> the (get_optimal_block_size (Some (8 * 1024 ^ 3)))"
    using get_optimal_block_size_spec [of "1024 ^ 3"] le by blast
  then show ?thesis
    by (simp add: get_optimal_block_size_def)
qed

subsection \<open>File system\<close>

lemma lookup_store: "lookup (store p b fs) q = (if q = p then Some (File b) else lookup fs q)"
  by (simp add: lookup_def store_def update_conv')

lemma lookup_update_Dir: "lookup (AList.update p Dir fs) q = (if q = p then Some Dir else lookup fs q)"
  by (simp add: lookup_def update_conv')

lemma lookup_delete: "lookup (AList.delete p fs) q = (if q = p then None else lookup fs q)"
  by (simp add: lookup_def delete_conv')

lemma write_file_fresh: "\<not> os_path_exists fs p \<Longrightarrow> write_file p b fs = Some (store p b fs)"
  by (simp add: write_file_def os_path_exists_def os_path_isdir_def store_def)

lemma write_file_file: "os_path_isfile fs p \<Longrightarrow> write_file p b fs = Some (store p b fs)"
  by (auto simp: write_file_def os_path_isfile_def os_path_isdir_def store_def split: option.splits node.splits)

lemma store_store: "store p b (store p a fs) = store p b fs"
  by (simp add: store_def)

lemma finite_existing: "finite {p. os_path_exists fs p}"
proof -
  have "{p. os_path_exists fs p} = dom (map_of fs)"
    by (auto simp: os_path_exists_def lookup_def)
  then show ?thesis by (simp add: finite_dom_map_of)
qed

subsection \<open>Decimal numerals\<close>

lemma py_str_nonempty: "py_str n \<noteq> []"
  by (subst py_str.simps) simp

lemma digit_char_inj: "d < 10 \<Longrightarrow> e < 10 \<Longrightarrow> digit_char d = digit_char e \<Longrightarrow> d = e"
  by (simp add: digit_char_def char_of_eq_iff take_bit_nat_eq_self)

lemma py_str_inj: "py_str n = py_str m \<Longrightarrow> n = m"
proof (induction n arbitrary: m rule: py_str.induct)
  case (1 n)
  show ?case
  proof (cases "n < 10")
    case small: True
    show ?thesis
    proof (cases "m < 10")
      case True
      with small "1.prems" show ?thesis
        by (simp add: digit_char_inj)
    next
      case False
      then have "length (py_str m) \<ge> 2"
        using py_str_nonempty [of "m div 10"]
        by (subst py_str.simps) (simp add: Suc_le_eq)
      moreover have "length (py_str n) = 1" using small by simp
      ultimately show ?thesis using "1.prems" by simp
    qed
  next
    case big: False
    show ?thesis
    proof (cases "m < 10")
      case True
      have "length (py_str n) \<ge> 2"
        using big py_str_nonempty [of "n div 10"]
        by (subst py_str.simps) (simp add: Suc_le_eq)
      moreover have "length (py_str m) = 1" using True by simp
      ultimately show ?thesis using "1.prems" by simp
    next
      case False
      have "py_str (n div 10) @ [digit_char (n mod 10)] = py_str (m div 10) @ [digit_char (m mod 10)]"
        using "1.prems" big False by (subst (asm) py_str.simps, subst (asm) (2) py_str.simps) simp
      then have a: "py_str (n div 10) = py_str (m div 10)" and b: "digit_char (n mod 10) = digit_char (m mod 10)"
        by simp_all
      from a have "n div 10 = m div 10" using "1.IH" big by blast
      moreover from b have "n mod 10 = m mod 10" by (simp add: digit_char_inj)
      ultimately show ?thesis by (metis div_mult_mod_eq)
    qed
  qed
qed

subsection \<open>The naming loop\<close>

lemma first_free_bounded:
  "\<not> os_path_exists fs (name (c + k)) \<Longrightarrow>
   \<exists>n. first_free name fs c = Some n \<and> c \<le> n \<and> \<not> os_path_exists fs (name n)"
proof (induction k arbitrary: c)
  case 0
  then show ?case by (subst first_free.simps) simp
next
  case (Suc k)
  show ?case
  proof (cases "os_path_exists fs (name c)")
    case True
    from Suc.prems have "\<not> os_path_exists fs (name (Suc c + k))" by simp
    from Suc.IH [OF this] obtain n where
      "first_free name fs (Suc c) = Some n" "Suc c \<le> n" "\<not> os_path_exists fs (name n)" by blast
    with True show ?thesis by (subst first_free.simps) auto
  next
    case False
    then show ?thesis by (subst first_free.simps) simp
  qed
qed

lemma first_free_inj:
  assumes inj: "\<And>n m. c \<le> n \<Longrightarrow> c \<le> m \<Longrightarrow> name n = name m \<Longrightarrow> n = m"
    and "c0 \<le> c"
  shows "\<exists>n. first_free name fs c0 = Some n \<and> c0 \<le> n \<and> \<not> os_path_exists fs (name n)"
proof -
  have "\<exists>k. \<not> os_path_exists fs (name (c + k))"
  proof (rule ccontr)
    assume "\<not> ?thesis"
    then have sub: "range (\<lambda>k. name (c + k)) \<subseteq> {p. os_path_exists fs p}" by auto
    have "inj (\<lambda>k. name (c + k))"
    proof (rule injI)
      fix x y assume "name (c + x) = name (c + y)"
      then have "c + x = c + y" by (intro inj) simp_all
      then show "x = y" by simp
    qed
    then have "infinite (range (\<lambda>k. name (c + k)))"
      using finite_imageD infinite_UNIV_nat by blast
    then show False using sub finite_existing finite_subset by blast
  qed
  then obtain k where "\<not> os_path_exists fs (name (c0 + (c - c0 + k)))"
    using \<open>c0 \<le> c\<close> by (auto simp: algebra_simps)
  then show ?thesis
    by (rule first_free_bounded [where name = name and c = c0 and k = "c - c0 + k"])
qed

subsection \<open>Cipher\<close>

lemma length_crypt_chunk: "length (crypt_chunk env key iv pos x) = length x"
  by (simp add: crypt_chunk_def)

lemma crypt_chunk_Nil: "crypt_chunk env key iv pos [] = []"
  by (simp add: crypt_chunk_def)

lemma crypt_chunk_nth:
  "i < length x \<Longrightarrow> crypt_chunk env key iv pos x ! i = x ! i XOR keystream env key iv (pos + i)"
  by (simp add: crypt_chunk_def)

lemma crypt_chunk_append:
  "crypt_chunk env key iv pos (a @ b)
   = crypt_chunk env key iv pos a @ crypt_chunk env key iv (pos + length a) b"
  by (rule nth_equalityI)
     (auto simp: length_crypt_chunk crypt_chunk_nth nth_append add.assoc)

lemma crypt_chunk_involution:
  "crypt_chunk env key iv pos (crypt_chunk env key iv pos x) = x"
  by (rule nth_equalityI) (auto simp: length_crypt_chunk crypt_chunk_nth xor.assoc)

lemma encrypt_loop_whole:
  "0 < block_size \<Longrightarrow> encrypt_loop env key iv block_size pos unread = crypt_chunk env key iv pos unread"
proof (induction env key iv block_size pos unread rule: encrypt_loop.induct)
  case (1 env key iv block_size pos unread)
  show ?case
  proof (cases "take block_size unread = []")
    case True
    with "1.prems" have "unread = []" by (cases unread) auto
    then show ?thesis by (subst encrypt_loop.simps) (simp add: crypt_chunk_Nil)
  next
    case False
    have "encrypt_loop env key iv block_size pos unread
          = crypt_chunk env key iv pos (take block_size unread)
            @ encrypt_loop env key iv block_size (pos + length (take block_size unread))
                (drop block_size unread)"
      using False by (subst encrypt_loop.simps) (simp add: Let_def)
    also have "\<dots> = crypt_chunk env key iv pos (take block_size unread)
            @ crypt_chunk env key iv (pos + length (take block_size unread)) (drop block_size unread)"
      using "1.IH" [OF refl False] "1.prems" by simp
    also have "\<dots> = crypt_chunk env key iv pos (take block_size unread @ drop block_size unread)"
      by (simp only: crypt_chunk_append)
    finally show ?thesis by simp
  qed
qed

lemma decrypt_loop_whole:
  "0 < block_size \<Longrightarrow>
   decrypt_loop env key iv block_size encrypted_data offset pos written
   = Some (written @ crypt_chunk env key iv pos (drop offset encrypted_data))"
proof (induction "length encrypted_data - offset" arbitrary: offset pos written rule: less_induct)
  case less
  show ?case
  proof (cases "offset < length encrypted_data")
    case False
    then show ?thesis
      by (subst decrypt_loop.simps) (simp add: crypt_chunk_Nil)
  next
    case True
    let ?chunk = "take block_size (drop offset encrypted_data)"
    have smaller: "length encrypted_data - (offset + block_size) < length encrypted_data - offset"
      using True less.prems by simp
    have "decrypt_loop env key iv block_size encrypted_data offset pos written
          = decrypt_loop env key iv block_size encrypted_data (offset + block_size)
              (pos + length ?chunk) (written @ crypt_chunk env key iv pos ?chunk)"
      using True by (subst decrypt_loop.simps) (simp add: Let_def)
    also have "\<dots> = Some ((written @ crypt_chunk env key iv pos ?chunk)
                     @ crypt_chunk env key iv (pos + length ?chunk)
                         (drop (offset + block_size) encrypted_data))"
      using less.hyps [OF smaller less.prems] .
    also have "drop (offset + block_size) encrypted_data = drop block_size (drop offset encrypted_data)"
      by (simp add: add.commute)
    also have "(written @ crypt_chunk env key iv pos ?chunk)
                 @ crypt_chunk env key iv (pos + length ?chunk) (drop block_size (drop offset encrypted_data))
               = written @ crypt_chunk env key iv pos (?chunk @ drop block_size (drop offset encrypted_data))"
      by (simp only: crypt_chunk_append append_assoc)
    finally show ?thesis by (simp only: append_take_drop_id)
  qed
qed

subsection \<open>Names\<close>

lemma endswith_append: "endswith (a @ x) x"
  by (simp add: endswith_def)

lemma endswith_appendD: "endswith s x \<Longrightarrow> \<exists>a. s = a @ x"
  by (metis append_take_drop_id endswith_def)

lemma startswith_append: "a \<noteq> [] \<Longrightarrow> startswith (a @ r) ''/'' = startswith a ''/''"
  by (cases a) (simp_all add: startswith_def)

lemma os_path_join_prefix: "os_path_join d x = join_prefix d x @ x"
  by (simp add: os_path_join_def join_prefix_def)

lemma join_prefix_append: "a \<noteq> [] \<Longrightarrow> join_prefix d (a @ r) = join_prefix d a"
  by (simp add: join_prefix_def startswith_append)

lemma os_path_join_append:
  "a \<noteq> [] \<Longrightarrow> os_path_join d (a @ r) = join_prefix d a @ a @ r"
  by (simp add: os_path_join_prefix join_prefix_append)

lemma endswith_join: "endswith (os_path_join d (x @ ext)) ext"
  by (simp add: os_path_join_prefix endswith_def)

lemma file_candidate_shape:
  "\<exists>pre post. \<forall>n. file_candidate p ext n = pre @ py_str n @ post @ ext"
proof -
  obtain base e where sp: "os_path_splitext (os_path_basename p) = (base, e)"
    by (cases "os_path_splitext (os_path_basename p)")
  have "file_candidate p ext n
        = (join_prefix (os_path_dirname p) (base @ '' ('') @ base @ '' ('') @ py_str n @ ('')'' @ e) @ ext"
    for n
  proof -
    have "file_candidate p ext n
          = os_path_join (os_path_dirname p) ((base @ '' ('') @ (py_str n @ '')'' @ e @ ext))"
      by (simp add: file_candidate_def sp)
    also have "\<dots> = join_prefix (os_path_dirname p) (base @ '' ('')
                       @ (base @ '' ('') @ (py_str n @ '')'' @ e @ ext)"
      by (rule os_path_join_append) simp
    finally show ?thesis by simp
  qed
  then show ?thesis by blast
qed

lemma folder_candidate_shape:
  "\<exists>pre post. \<forall>n\<ge>1. folder_candidate p ext n = pre @ py_str n @ post @ ext"
proof -
  define base where "base = os_path_basename (os_path_normpath p)"
  have "folder_candidate p ext n
        = (join_prefix p (base @ '' ('') @ base @ '' ('') @ py_str n @ '')'' @ ext"
    if "1 \<le> n" for n
  proof -
    have "folder_candidate p ext n = os_path_join p ((base @ '' ('') @ (py_str n @ '')'' @ ext))"
      using that by (simp add: folder_candidate_def base_def)
    also have "\<dots> = join_prefix p (base @ '' ('') @ (base @ '' ('') @ (py_str n @ '')'' @ ext)"
      by (rule os_path_join_append) simp
    finally show ?thesis by simp
  qed
  then show ?thesis by blast
qed

lemma key_candidate_shape:
  "\<exists>pre post. \<forall>n. key_candidate p ext n = pre @ py_str n @ post @ ext"
proof -
  obtain base e where sp: "os_path_splitext (os_path_basename p) = (base, e)"
    by (cases "os_path_splitext (os_path_basename p)")
  have "key_candidate p ext n = (base @ ''_'') @ py_str n @ e @ ext" for n
    by (simp add: key_candidate_def sp)
  then show ?thesis by blast
qed

lemma shape_inj:
  assumes "\<forall>n\<ge>c. name n = pre @ py_str n @ post" "c \<le> n" "c \<le> m" "name n = name m"
  shows "n = m"
proof -
  from assms have "pre @ py_str n @ post = pre @ py_str m @ post" by metis
  then have "py_str n = py_str m" by simp
  then show ?thesis by (rule py_str_inj)
qed

lemma first_free_shape:
  assumes "\<forall>n\<ge>c. name n = pre @ py_str n @ post" "c0 \<le> c"
  shows "\<exists>n. first_free name fs c0 = Some n \<and> c0 \<le> n \<and> \<not> os_path_exists fs (name n)"
  by (rule first_free_inj [where c = c]) (use assms shape_inj in blast)+

lemma file_candidate_endswith: "endswith (file_candidate p ext n) ext"
  using file_candidate_shape [of p ext]
  by (metis append.assoc endswith_append)

lemma folder_candidate_endswith: "endswith (folder_candidate p ext n) ext"
  by (simp add: folder_candidate_def Let_def endswith_join del: append_assoc)

lemma generate_unique_file_name_file:
  assumes "os_path_isfile fs p"
  shows "\<exists>c. generate_unique_file_name fs p ext = Some (Some c)
             \<and> \<not> os_path_exists fs c \<and> endswith c ext"
proof (cases "os_path_exists fs (p @ ext)")
  case False
  with assms show ?thesis
    by (simp add: generate_unique_file_name_def endswith_append)
next
  case True
  obtain pre post where "\<forall>n. file_candidate p ext n = pre @ py_str n @ post @ ext"
    using file_candidate_shape by blast
  then have "\<forall>n\<ge>1. file_candidate p ext n = pre @ py_str n @ (post @ ext)" by simp
  from first_free_shape [OF this, of 1 fs]
  obtain n where "first_free (file_candidate p ext) fs 1 = Some n"
    "\<not> os_path_exists fs (file_candidate p ext n)" by auto
  with assms True show ?thesis
    by (simp add: generate_unique_file_name_def file_candidate_endswith)
qed

lemma isdir_not_isfile: "os_path_isdir fs p \<Longrightarrow> \<not> os_path_isfile fs p"
  by (simp add: os_path_isdir_def os_path_isfile_def)

lemma generate_unique_file_name_dir:
  assumes "os_path_isdir fs p"
  shows "\<exists>c. generate_unique_file_name fs p ext = Some (Some c)
             \<and> \<not> os_path_exists fs c \<and> endswith c ext"
proof (cases "os_path_exists fs (os_path_join p (os_path_basename p @ ext))")
  case False
  with assms show ?thesis
    by (simp add: generate_unique_file_name_def isdir_not_isfile endswith_join)
next
  case True
  obtain pre post where "\<forall>n\<ge>1. folder_candidate p ext n = pre @ py_str n @ post @ ext"
    using folder_candidate_shape by blast
  then have "\<forall>n\<ge>1. folder_candidate p ext n = pre @ py_str n @ (post @ ext)" by simp
  from first_free_shape [OF this, of 0 fs]
  obtain n where "first_free (folder_candidate p ext) fs 0 = Some n"
    "\<not> os_path_exists fs (folder_candidate p ext n)" by auto
  with assms True show ?thesis
    by (simp add: generate_unique_file_name_def isdir_not_isfile folder_candidate_endswith)
qed

lemma generate_unique_key_file_name_fresh:
  "\<exists>k. generate_unique_key_file_name fs p ext = Some k \<and> \<not> os_path_exists fs k"
proof (cases "os_path_exists fs (p @ ''_'' @ ext)")
  case False
  then show ?thesis by (simp add: generate_unique_key_file_name_def)
next
  case True
  obtain pre post where "\<forall>n. key_candidate p ext n = pre @ py_str n @ post @ ext"
    using key_candidate_shape by blast
  then have "\<forall>n\<ge>1. key_candidate p ext n = pre @ py_str n @ (post @ ext)" by simp
  from first_free_shape [OF this, of 1 fs]
  obtain n where "first_free (key_candidate p ext) fs 1 = Some n"
    "\<not> os_path_exists fs (key_candidate p ext n)" by auto
  with True show ?thesis
    by (simp add: generate_unique_key_file_name_def)
qed

subsection \<open>Digests and hexadecimal text\<close>

lemma length_digest: "length (digest (w :: 'a::len word)) = LENGTH('a) div 8"
  by (simp add: digest_def)

lemma length_sha1_digest: "length (digest (sha1 env x)) = 20"
  by (simp add: length_digest)

lemma length_sha256_digest: "length (digest (sha256 env x)) = 32"
  by (simp add: length_digest)

lemma aes_key_ok_sha256: "aes_key_ok (digest (sha256 env x))"
  by (simp add: aes_key_ok_def length_sha256_digest)

lemma of_char_hex_char:
  "d < 16 \<Longrightarrow> (of_char (hex_char d) :: nat) = (if d < 10 then 48 + d else 87 + d)"
  by (simp add: hex_char_def)

lemma hex_char_props:
  assumes "d < 16"
  shows "hex_val (hex_char d) = Some d \<and> \<not> ascii_space (hex_char d)
     \<and> (of_char (hex_char d) :: nat) < 128 \<and> hex_char d \<noteq> CHR 0x0D"
proof -
  have "hex_char d \<noteq> CHR 0x0D"
  proof
    assume "hex_char d = CHR 0x0D"
    then have "(of_char (hex_char d) :: nat) = of_char (CHR 0x0D)" by simp
    then show False using assms by (simp add: of_char_hex_char split: if_splits)
  qed
  then show ?thesis
    using assms by (simp add: hex_val_def ascii_space_def Let_def of_char_hex_char)
qed

lemma byte_nibbles: "of_nat (16 * (unat b div 16) + unat b mod 16) = (b :: byte)"
  by simp

lemma fromhex_hex: "fromhex (hex bs) = Some bs"
proof (induction bs)
  case Nil
  then show ?case by (simp add: hex_def)
next
  case (Cons b bs)
  have hi: "unat b div 16 < 16"
  proof -
    have "unat b < 2 ^ LENGTH(8)" by (rule unsigned_less)
    then show ?thesis by simp
  qed
  have lo: "unat b mod 16 < 16" by simp
  have "hex (b # bs) = hex_char (unat b div 16) # hex_char (unat b mod 16) # hex bs"
    by (simp add: hex_def hex_byte_def)
  then show ?case
    using Cons.IH hex_char_props [OF hi] hex_char_props [OF lo]
    by (simp add: byte_nibbles)
qed

lemma length_hex: "length (hex bs) = 2 * length bs"
  by (induction bs) (simp_all add: hex_def hex_byte_def)

lemma hex_chars: "c \<in> set (hex bs) \<Longrightarrow> (of_char c :: nat) < 128 \<and> c \<noteq> CHR 0x0D"
proof (induction bs)
  case Nil
  then show ?case by (simp add: hex_def)
next
  case (Cons b bs)
  have hi: "unat b div 16 < 16"
  proof -
    have "unat b < 2 ^ LENGTH(8)" by (rule unsigned_less)
    then show ?thesis by simp
  qed
  have lo: "unat b mod 16 < 16" by simp
  from Cons show ?case
    using hex_char_props [OF hi] hex_char_props [OF lo]
    by (auto simp: hex_def hex_byte_def)
qed

lemma universal_newlines_id: "CHR 0x0D \<notin> set s \<Longrightarrow> universal_newlines s = s"
  by (induction s rule: universal_newlines.induct) auto

lemma read_text_text_bytes:
  assumes "\<And>c. c \<in> set s \<Longrightarrow> (of_char c :: nat) < 128 \<and> c \<noteq> CHR 0x0D"
  shows "read_text (text_bytes s) n = Some (take n s)"
proof -
  have small: "\<forall>b \<in> set (text_bytes s). unat b < 128"
    using assms by (auto simp: text_bytes_def unat_of_nat)
  have restored: "map (\<lambda>b. char_of (unat b)) (text_bytes s) = s"
  proof -
    have "char_of (unat (of_nat (of_char c :: nat) :: byte)) = c" if "c \<in> set s" for c
      using assms [OF that] by (simp add: unat_of_nat)
    then show ?thesis
      by (simp add: text_bytes_def comp_def map_idI)
  qed
  have "CHR 0x0D \<notin> set s" using assms by blast
  then show ?thesis
    using small by (simp add: read_text_def restored universal_newlines_id)
qed

lemma read_recovery_text:
  "read_text (text_bytes (hex (digest (sha256 env x)))) 64 = Some (hex (digest (sha256 env x)))"
proof -
  have "length (hex (digest (sha256 env x))) = 64"
    by (simp add: length_hex length_sha256_digest)
  then show ?thesis
    using read_text_text_bytes [of "hex (digest (sha256 env x))" 64] hex_chars by simp
qed

lemma length_text_bytes: "length (text_bytes s) = length s"
  by (simp add: text_bytes_def)

subsection \<open>The name of the decrypted file\<close>

lemma basename_no_sep: "CHR ''/'' \<notin> set (os_path_basename p)"
  by (auto simp: os_path_basename_def dest: set_takeWhileD)

lemma basename_append_plain:
  assumes "CHR ''/'' \<notin> set x"
  shows "os_path_basename (a @ x) = os_path_basename a @ x"
proof -
  have "takeWhile (\<lambda>c. c \<noteq> CHR ''/'') (rev x @ rev a)
        = rev x @ takeWhile (\<lambda>c. c \<noteq> CHR ''/'') (rev a)"
    by (rule takeWhile_append2) (use assms in auto)
  then show ?thesis by (simp add: os_path_basename_def)
qed





lemma no_sep_basename: 
  assumes "CHR ''/'' \<notin> set b"
  shows "os_path_basename b = b" "path_head b = []"
proof -
  have all: "\<forall>c \<in> set (rev b). c \<noteq> CHR ''/''" using assms by fastforce
  then have tw: "takeWhile (\<lambda>c. c \<noteq> CHR ''/'') (rev b) = rev b"
    by (simp only: takeWhile_eq_all_conv)
  show "os_path_basename b = b"
    unfolding os_path_basename_def tw by simp
  from all have "dropWhile (\<lambda>c. c \<noteq> CHR ''/'') (rev b) = []"
    by (simp only: dropWhile_eq_Nil_conv)
  then show "path_head b = []"
    unfolding path_head_def by simp
qed

lemma take_nonempty: "take n b \<noteq> [] \<Longrightarrow> 0 < n"
  by (cases n) simp_all

lemma splitext_plain:
  assumes "CHR ''/'' \<notin> set b"
  shows "os_path_splitext b =
     (if CHR ''.'' \<in> set b \<and> (\<exists>c \<in> set (take (length b - length (rev (takeWhile (\<lambda>c. c \<noteq> CHR ''.'') (rev b))) - 1) b). c \<noteq> CHR ''.'')
      then (take (length b - length (rev (takeWhile (\<lambda>c. c \<noteq> CHR ''.'') (rev b))) - 1) b,
            drop (length (take (length b - length (rev (takeWhile (\<lambda>c. c \<noteq> CHR ''.'') (rev b))) - 1) b)) b) else (b, []))"
  unfolding os_path_splitext_def Let_def no_sep_basename [OF assms] append_Nil by (rule refl)

lemma splitext_fst_prefix:
  assumes "CHR ''/'' \<notin> set b" "b \<noteq> []"
  shows "\<exists>k>0. fst (os_path_splitext b) = take k b"
proof -
  define k where "k = length b - length (rev (takeWhile (\<lambda>c. c \<noteq> CHR ''.'') (rev b))) - 1"
  have unfolded: "os_path_splitext b =
     (if CHR ''.'' \<in> set b \<and> (\<exists>c \<in> set (take k b). c \<noteq> CHR ''.'')
      then (take k b, drop (length (take k b)) b) else (b, []))"
    unfolding k_def by (rule splitext_plain [OF assms(1)])
  show ?thesis
  proof (cases "CHR ''.'' \<in> set b \<and> (\<exists>c \<in> set (take k b). c \<noteq> CHR ''.'')")
    case True
    then have "take k b \<noteq> []" by fastforce
    then have "0 < k" by (rule take_nonempty)
    moreover have "fst (os_path_splitext b) = take k b"
      by (simp only: unfolded True if_True fst_conv simp_thms)
    ultimately show ?thesis by blast
  next
    case False
    have "fst (os_path_splitext b) = b"
      by (simp only: unfolded False if_False fst_conv simp_thms)
    then have "fst (os_path_splitext b) = take (length b) b" by simp
    moreover have "0 < length b" using assms(2) by simp
    ultimately show ?thesis by blast
  qed
qed

lemma join_longer:
  assumes "x \<noteq> []" "\<not> startswith x ''/''" 
  shows "length e < length (os_path_join e x)"
  using assms by (simp add: os_path_join_prefix join_prefix_def)

lemma startswith_sep_hd: "x \<noteq> [] \<Longrightarrow> startswith x ''/'' \<Longrightarrow> hd x = CHR ''/''"
  by (cases x) (simp_all add: startswith_def)

lemma decrypted_name_plain:
  assumes "endswith c ''.pack''"
  shows "fst (os_path_splitext (os_path_basename c)) \<noteq> []
         \<and> \<not> startswith (fst (os_path_splitext (os_path_basename c))) ''/''"
proof -
  obtain a where c: "c = a @ ''.pack''" using assms endswith_appendD by blast
  define b where "b = os_path_basename c"
  have b: "b = os_path_basename a @ ''.pack''"
    unfolding b_def c by (rule basename_append_plain) simp
  have nosep: "CHR ''/'' \<notin> set b" unfolding b_def by (rule basename_no_sep)
  have "b \<noteq> []" using b by simp
  with nosep obtain k where k: "0 < k" "fst (os_path_splitext b) = take k b"
    using splitext_fst_prefix by blast
  define x where "x = fst (os_path_splitext b)"
  have x: "x = take k b" using k by (simp add: x_def)
  have ne: "x \<noteq> []" using k(1) \<open>b \<noteq> []\<close> by (simp add: x)
  have "\<not> startswith x ''/''"
  proof
    assume "startswith x ''/''"
    then have "hd x = CHR ''/''" using ne by (intro startswith_sep_hd)
    moreover have "hd x \<in> set x" using ne by simp
    moreover have "set x \<subseteq> set b" unfolding x by (rule set_take_subset)
    ultimately show False using nosep by auto
  qed
  with ne show ?thesis unfolding x_def b_def by simp
qed

lemma decrypted_path_not_dir:
  assumes "c \<noteq> []" "os_path_exists fs c" "\<not> os_path_exists fs e"
  shows "decrypted_path e c \<noteq> e"
proof (cases "endswith c ''.pack''")
  case True
  define x where "x = fst (os_path_splitext (os_path_basename c))"
  have "x \<noteq> []" "\<not> startswith x ''/''"
    using decrypted_name_plain [OF True] by (simp_all add: x_def)
  then have "length e < length (os_path_join e x)" by (rule join_longer)
  moreover have "decrypted_path e c = os_path_join e x"
    using True by (simp add: decrypted_path_def x_def)
  ultimately show ?thesis by auto
next
  case False
  then have d: "decrypted_path e c = os_path_join e c" by (simp add: decrypted_path_def)
  show ?thesis
  proof (cases "startswith c ''/''")
    case True
    then have "os_path_join e c = c" by (simp add: os_path_join_def)
    then show ?thesis using d assms by auto
  next
    case False
    with assms(1) have "length e < length (os_path_join e c)" by (rule join_longer)
    then show ?thesis using d by auto
  qed
qed

end
